theory Spec2Isabelle
  imports Main
begin

section \<open>The page as script.js sees it\<close>

text \<open>
  script.js is one load listener. It writes two properties of the inline style of
  \<^verbatim>\<open>document.body\<close>, schedules one timer, toggles three marker classes on the elements it
  finds by \<^verbatim>\<open>getElementById\<close> and \<^verbatim>\<open>querySelector\<close>, and registers one click listener.

  An element carries what the script reads or writes: its \<^verbatim>\<open>id\<close> attribute (if any), the
  token set of its \<^verbatim>\<open>classList\<close> in order, its inline \<^verbatim>\<open>style\<close> as a map from property name
  to serialised value, and the number of close listeners that \<^verbatim>\<open>addEventListener("click", ...)\<close>
  has registered on it (every load creates a fresh closure, so repeated registrations
  add up).
\<close>

record element =
  ident :: "string option"
  classList :: "string list"
  style :: "string \<rightharpoonup> string"
  closeListeners :: nat

text \<open>
  The script has one timer callback, \<^verbatim>\<open>function() { document.body.style.opacity = 1; }\<close>.
\<close>

datatype callback = RevealBody

text \<open>
  A page that has reached \<^verbatim>\<open>load\<close> always has a body element. The elements of the document
  are kept in tree order, which is the order the lookups search: those before the body,
  the body, those after it. The body is an element like any other, so a lookup may
  return it. \<open>timers\<close> is the list of pending \<^verbatim>\<open>setTimeout\<close> entries, each with its delay in
  milliseconds.
\<close>

record page =
  ahead :: "element list"
  body :: element
  inside :: "element list"
  timers :: "(callback \<times> nat) list"

definition tree :: "page \<Rightarrow> element list" where
  "tree s = ahead s @ body s # inside s"

text \<open>An element reference is a position in tree order; \<open>modify\<close> mutates the element there.\<close>

definition bodyRef :: "page \<Rightarrow> nat" where
  "bodyRef s = length (ahead s)"

definition modify :: "nat \<Rightarrow> (element \<Rightarrow> element) \<Rightarrow> page \<Rightarrow> page" where
  "modify i f s =
     (if i < length (ahead s) then s\<lparr>ahead := (ahead s)[i := f (ahead s ! i)]\<rparr>
      else if i = length (ahead s) then s\<lparr>body := f (body s)\<rparr>
      else if i - Suc (length (ahead s)) < length (inside s)
        then s\<lparr>inside := (inside s)[i - Suc (length (ahead s))
                            := f (inside s ! (i - Suc (length (ahead s))))]\<rparr>
      else s)"

subsection \<open>The DOM calls the script makes\<close>

fun find_first :: "('a \<Rightarrow> bool) \<Rightarrow> 'a list \<Rightarrow> nat option" where
  "find_first P [] = None"
| "find_first P (x # xs) = (if P x then Some 0 else map_option Suc (find_first P xs))"

text \<open>\<^verbatim>\<open>document.getElementById(i)\<close>: the first element in tree order with that id, or null.\<close>

definition getElementById :: "string \<Rightarrow> page \<Rightarrow> nat option" where
  "getElementById i s = find_first (\<lambda>e. ident e = Some i) (tree s)"

text \<open>
  \<^verbatim>\<open>document.querySelector("." + c)\<close>: the first element in tree order whose class list has
  the token \<open>c\<close>, or null.
\<close>

definition querySelector_class :: "string \<Rightarrow> page \<Rightarrow> nat option" where
  "querySelector_class c s = find_first (\<lambda>e. c \<in> set (classList e)) (tree s)"

text \<open>
  \<^verbatim>\<open>classList.add(t)\<close> appends the token unless the set has it; \<^verbatim>\<open>classList.remove(t)\<close>
  takes it out.
\<close>

definition classList_add :: "string \<Rightarrow> element \<Rightarrow> element" where
  "classList_add t e =
     e\<lparr>classList := (if t \<in> set (classList e) then classList e else classList e @ [t])\<rparr>"

definition classList_remove :: "string \<Rightarrow> element \<Rightarrow> element" where
  "classList_remove t e = e\<lparr>classList := removeAll t (classList e)\<rparr>"

text \<open>\<^verbatim>\<open>el.style[p] = v\<close>, with \<open>v\<close> already serialised (the number 1 is stored as "1").\<close>

definition style_set :: "string \<Rightarrow> string \<Rightarrow> element \<Rightarrow> element" where
  "style_set p v e = e\<lparr>style := (style e)(p \<mapsto> v)\<rparr>"

text \<open>\<^verbatim>\<open>el.addEventListener("click", function() {...})\<close> with the close handler.\<close>

definition addEventListener_click :: "element \<Rightarrow> element" where
  "addEventListener_click e = e\<lparr>closeListeners := Suc (closeListeners e)\<rparr>"

text \<open>\<^verbatim>\<open>setTimeout(f, d)\<close>; the handle it returns is dropped by the script.\<close>

definition setTimeout :: "callback \<Rightarrow> nat \<Rightarrow> page \<Rightarrow> page" where
  "setTimeout f d s = s\<lparr>timers := timers s @ [(f, d)]\<rparr>"

subsection \<open>The three functions of script.js\<close>

text \<open>
  A member access on null throws a TypeError that nothing in the script catches: the
  handler stops there, and what it has written so far stays written.
\<close>

datatype outcome = Completed | TypeError

text \<open>The timer callback (lines 3 to 5).\<close>

definition reveal :: "page \<Rightarrow> outcome \<times> page" where
  "reveal s = (Completed, modify (bodyRef s) (style_set ''opacity'' ''1'') s)"

text \<open>The click listener (lines 10 to 14). It looks every element up again when it runs.\<close>

definition click_handler :: "page \<Rightarrow> outcome \<times> page" where
  "click_handler s0 =
     (case getElementById ''popup'' s0 of
        None \<Rightarrow> (TypeError, s0)
      | Some p \<Rightarrow>
          let s1 = modify p (classList_remove ''show'') s0 in
          (case querySelector_class ''container'' s1 of
             None \<Rightarrow> (TypeError, s1)
           | Some c \<Rightarrow>
               let s2 = modify c (classList_remove ''blur'') s1 in
               (case getElementById ''overlay'' s2 of
                  None \<Rightarrow> (TypeError, s2)
                | Some v \<Rightarrow> (Completed, modify v (classList_add ''hide'') s2))))"

text \<open>The load listener (lines 1 to 15).\<close>

definition load_handler :: "page \<Rightarrow> outcome \<times> page" where
  "load_handler s0 =
     (let s1 = modify (bodyRef s0) (style_set ''display'' ''block'') s0;
          s2 = setTimeout RevealBody 50 s1 in
      (case getElementById ''popup'' s2 of
         None \<Rightarrow> (TypeError, s2)
       | Some p \<Rightarrow>
           let s3 = modify p (classList_add ''show'') s2 in
           (case querySelector_class ''container'' s3 of
              None \<Rightarrow> (TypeError, s3)
            | Some c \<Rightarrow>
                let s4 = modify c (classList_add ''blur'') s3 in
                (case getElementById ''overlay'' s4 of
                   None \<Rightarrow> (TypeError, s4)
                 | Some v \<Rightarrow>
                     let s5 = modify v (classList_remove ''hide'') s4 in
                     (case getElementById ''close-popup'' s5 of
                        None \<Rightarrow> (TypeError, s5)
                      | Some b \<Rightarrow> (Completed, modify b addEventListener_click s5))))))"

subsection \<open>The host: events and the handlers they invoke\<close>

text \<open>
  The browser fires \<^verbatim>\<open>load\<close>, delivers a click to an element, or runs a pending timer. A
  click on an element invokes each close listener registered on it; a timer is taken
  off the pending list when it runs. An exception that leaves a handler is reported by
  the host and dropped.
\<close>

datatype event = Load | Click nat | Timeout nat

datatype handler = OnLoad | OnClick | OnTimeout callback

fun dispatch :: "event \<Rightarrow> page \<Rightarrow> handler list" where
  "dispatch Load s = [OnLoad]"
| "dispatch (Click i) s =
     (if i < length (tree s) then replicate (closeListeners (tree s ! i)) OnClick else [])"
| "dispatch (Timeout k) s =
     (if k < length (timers s) then [OnTimeout (fst (timers s ! k))] else [])"

fun dequeue :: "event \<Rightarrow> page \<Rightarrow> page" where
  "dequeue (Timeout k) s =
     (if k < length (timers s) then s\<lparr>timers := take k (timers s) @ drop (Suc k) (timers s)\<rparr>
      else s)"
| "dequeue e s = s"

fun invoke :: "handler \<Rightarrow> page \<Rightarrow> page" where
  "invoke OnLoad s = snd (load_handler s)"
| "invoke OnClick s = snd (click_handler s)"
| "invoke (OnTimeout RevealBody) s = snd (reveal s)"

definition fire :: "event \<Rightarrow> page \<Rightarrow> page" where
  "fire e s = fold invoke (dispatch e s) (dequeue e s)"

fun run :: "event list \<Rightarrow> page \<Rightarrow> page" where
  "run [] s = s"
| "run (e # es) s = run es (fire e s)"

fun trace :: "event list \<Rightarrow> page \<Rightarrow> handler list" where
  "trace [] s = []"
| "trace (e # es) s = dispatch e s @ trace es (fire e s)"

subsection \<open>Marker states and conditions on the page\<close>

text \<open>
  The three marker states, read off the element that the script's own lookup returns;
  \<open>None\<close> when that element is not on the page.
\<close>

definition popup_shown :: "page \<Rightarrow> bool option" where
  "popup_shown s =
     map_option (\<lambda>p. ''show'' \<in> set (classList (tree s ! p))) (getElementById ''popup'' s)"

definition container_blurred :: "page \<Rightarrow> bool option" where
  "container_blurred s =
     map_option (\<lambda>c. ''blur'' \<in> set (classList (tree s ! c)))
       (querySelector_class ''container'' s)"

definition overlay_visible :: "page \<Rightarrow> bool option" where
  "overlay_visible s =
     map_option (\<lambda>v. ''hide'' \<notin> set (classList (tree s ! v))) (getElementById ''overlay'' s)"

definition in_sync :: "page \<Rightarrow> bool" where
  "in_sync s =
     (popup_shown s \<noteq> None \<and> popup_shown s = container_blurred s
      \<and> container_blurred s = overlay_visible s)"

text \<open>The elements the click listener mutates, and the four the load listener needs.\<close>

definition targets_present :: "page \<Rightarrow> bool" where
  "targets_present s =
     (getElementById ''popup'' s \<noteq> None \<and> querySelector_class ''container'' s \<noteq> None
      \<and> getElementById ''overlay'' s \<noteq> None)"

definition all_present :: "page \<Rightarrow> bool" where
  "all_present s = (targets_present s \<and> getElementById ''close-popup'' s \<noteq> None)"

text \<open>A page on which the script has registered nothing yet.\<close>

definition no_listeners :: "page \<Rightarrow> bool" where
  "no_listeners s = list_all (\<lambda>e. closeListeners e = 0) (tree s)"

text \<open>The body is none of the elements that the script's lookups return.\<close>

definition body_untargeted :: "page \<Rightarrow> bool" where
  "body_untargeted s =
     (getElementById ''popup'' s \<noteq> Some (bodyRef s)
      \<and> querySelector_class ''container'' s \<noteq> Some (bodyRef s)
      \<and> getElementById ''overlay'' s \<noteq> Some (bodyRef s)
      \<and> getElementById ''close-popup'' s \<noteq> Some (bodyRef s))"

subsection \<open>Sample pages\<close>

text \<open>
  Concrete pages on which the theorems below are instantiated. \<open>demo_page\<close> has the four
  elements inside a plain body, with the popup closed; the others drop one element or
  put the \<^verbatim>\<open>container\<close> class on the body itself.
\<close>

definition el :: "string option \<Rightarrow> string list \<Rightarrow> element" where
  "el i cs = \<lparr>ident = i, classList = cs, style = Map.empty, closeListeners = 0\<rparr>"

definition demo_page :: page where
  "demo_page =
     \<lparr>ahead = [el None [], el None []],
      body = el None [],
      inside = [el None [''container''], el (Some ''overlay'') [''hide''],
                el (Some ''popup'') [''card''], el (Some ''close-popup'') []],
      timers = []\<rparr>"

definition demo_no_popup :: page where
  "demo_no_popup =
     \<lparr>ahead = [el None [], el None []],
      body = el None [],
      inside = [el None [''container''], el (Some ''overlay'') [''hide''],
                el (Some ''close-popup'') []],
      timers = []\<rparr>"

definition demo_no_container :: page where
  "demo_no_container =
     \<lparr>ahead = [el None [], el None []],
      body = el None [],
      inside = [el None [''wrapper''], el (Some ''overlay'') [''hide''],
                el (Some ''popup'') [''card''], el (Some ''close-popup'') []],
      timers = []\<rparr>"

definition demo_body_container :: page where
  "demo_body_container =
     \<lparr>ahead = [el None [], el None []],
      body = el None [''container''],
      inside = [el (Some ''overlay'') [''hide''],
                el (Some ''popup'') [''card''], el (Some ''close-popup'') []],
      timers = []\<rparr>"

definition demo_no_overlay :: page where
  "demo_no_overlay =
     \<lparr>ahead = [el None [], el None []],
      body = el None [],
      inside = [el None [''container''], el (Some ''popup'') [''card''],
                el (Some ''close-popup'') []],
      timers = []\<rparr>"

definition demo_no_close :: page where
  "demo_no_close =
     \<lparr>ahead = [el None [], el None []],
      body = el None [],
      inside = [el None [''container''], el (Some ''overlay'') [''hide''],
                el (Some ''popup'') [''card'']],
      timers = []\<rparr>"

text \<open>
  \<open>demo_page\<close> after its load event, with the container element then taken out of the
  document by something else on the page.
\<close>

definition demo_open_no_container :: page where
  "demo_open_no_container =
     \<lparr>ahead = [el None [], el None []],
      body = (el None [])\<lparr>style := [''display'' \<mapsto> ''block'']\<rparr>,
      inside = [el (Some ''overlay'') [], el (Some ''popup'') [''card'', ''show''],
                (el (Some ''close-popup'') [])\<lparr>closeListeners := 1\<rparr>],
      timers = [(RevealBody, 50)]\<rparr>"

subsection \<open>The click listener, element by element\<close>

text \<open>
  What the click listener does to one element, given whether that element is the popup
  (\<open>x\<close>), the container (\<open>y\<close>) and the overlay (\<open>z\<close>). One element can be several of
  them at once: the container is whatever carries the class, the popup or the overlay
  included.
\<close>

definition close_at :: "bool \<Rightarrow> bool \<Rightarrow> bool \<Rightarrow> element \<Rightarrow> element" where
  "close_at x y z e =
     (if z then classList_add ''hide'' else id)
       ((if y then classList_remove ''blur'' else id)
         ((if x then classList_remove ''show'' else id) e))"

section \<open>Element references and lookups\<close>

lemma tree_modify: "tree (modify i f s) = (tree s)[i := f (tree s ! i)]"
proof -
  consider "i < length (ahead s)" | "i = length (ahead s)"
    | k where "i = Suc (length (ahead s) + k)"
    by (metis less_iff_Suc_add linorder_neqE_nat)
  then show ?thesis
  proof cases
    case 1
    then show ?thesis
      by (simp add: tree_def modify_def list_update_append nth_append)
  next
    case 2
    then show ?thesis
      by (simp add: tree_def modify_def list_update_append nth_append)
  next
    case 3
    then show ?thesis
      by (simp add: tree_def modify_def list_update_append nth_append list_update_beyond)
  qed
qed

lemma length_tree_modify: "length (tree (modify i f s)) = length (tree s)"
  by (simp add: tree_modify)

lemma bodyRef_modify: "bodyRef (modify i f s) = bodyRef s"
  by (simp add: bodyRef_def modify_def)

lemma timers_modify: "timers (modify i f s) = timers s"
  by (simp add: modify_def)

lemma page_eqI:
  "tree s = tree t \<Longrightarrow> bodyRef s = bodyRef t \<Longrightarrow> timers s = timers t \<Longrightarrow> s = (t::page)"
  by (cases s, cases t) (auto simp: tree_def bodyRef_def)

lemma find_first_Some:
  "find_first P xs = Some i \<Longrightarrow> i < length xs \<and> P (xs ! i) \<and> (\<forall>j<i. \<not> P (xs ! j))"
proof (induction xs arbitrary: i)
  case Nil
  then show ?case by simp
next
  case (Cons x xs)
  show ?case
  proof (cases "P x")
    case True
    with Cons.prems show ?thesis by simp
  next
    case False
    with Cons.prems obtain k where k: "find_first P xs = Some k" "i = Suc k"
      by auto
    from Cons.IH [OF k(1)] False k(2) show ?thesis
      by (auto simp: less_Suc_eq_0_disj)
  qed
qed

lemma find_first_None: "find_first P xs = None \<longleftrightarrow> (\<forall>x\<in>set xs. \<not> P x)"
  by (induction xs) auto

lemma find_first_update:
  "(\<And>e. P (f e) = P e) \<Longrightarrow> find_first P (xs[i := f (xs ! i)]) = find_first P xs"
proof (induction xs arbitrary: i)
  case Nil
  then show ?case by simp
next
  case (Cons x xs)
  then show ?case by (cases i) simp_all
qed


lemma nth_tree_modify:
  "tree (modify i f s) ! j = (if j = i \<and> i < length (tree s) then f (tree s ! j) else tree s ! j)"
  by (cases "j = i") (auto simp: tree_modify list_update_beyond)

lemma getElementById_modify:
  "(\<And>e. ident (f e) = ident e) \<Longrightarrow> getElementById i (modify j f s) = getElementById i s"
  by (simp add: getElementById_def tree_modify find_first_update)

lemma querySelector_class_modify:
  "(\<And>e. (c \<in> set (classList (f e))) = (c \<in> set (classList e))) \<Longrightarrow>
   querySelector_class c (modify j f s) = querySelector_class c s"
  by (simp add: querySelector_class_def tree_modify find_first_update)

lemma tree_setTimeout: "tree (setTimeout f d s) = tree s"
  by (simp add: tree_def setTimeout_def)

lemma bodyRef_setTimeout: "bodyRef (setTimeout f d s) = bodyRef s"
  by (simp add: bodyRef_def setTimeout_def)

lemma getElementById_setTimeout: "getElementById i (setTimeout f d s) = getElementById i s"
  by (simp add: getElementById_def tree_setTimeout)

lemma querySelector_class_setTimeout:
  "querySelector_class c (setTimeout f d s) = querySelector_class c s"
  by (simp add: querySelector_class_def tree_setTimeout)

lemma ident_ops:
  "ident (classList_add t e) = ident e"
  "ident (classList_remove t e) = ident e"
  "ident (style_set p v e) = ident e"
  "ident (addEventListener_click e) = ident e"
  by (simp_all add: classList_add_def classList_remove_def style_set_def
      addEventListener_click_def)

lemma classList_ops:
  "classList (style_set p v e) = classList e"
  "classList (addEventListener_click e) = classList e"
  "(u \<in> set (classList (classList_add t e))) = (u = t \<or> u \<in> set (classList e))"
  "(u \<in> set (classList (classList_remove t e))) = (u \<noteq> t \<and> u \<in> set (classList e))"
  by (auto simp: classList_add_def classList_remove_def style_set_def
      addEventListener_click_def)

lemma load_handler_lookups:
  "load_handler s =
     (let s2 = setTimeout RevealBody 50 (modify (bodyRef s) (style_set ''display'' ''block'') s) in
      (case getElementById ''popup'' s of
         None \<Rightarrow> (TypeError, s2)
       | Some p \<Rightarrow>
           let s3 = modify p (classList_add ''show'') s2 in
           (case querySelector_class ''container'' s of
              None \<Rightarrow> (TypeError, s3)
            | Some c \<Rightarrow>
                let s4 = modify c (classList_add ''blur'') s3 in
                (case getElementById ''overlay'' s of
                   None \<Rightarrow> (TypeError, s4)
                 | Some v \<Rightarrow>
                     let s5 = modify v (classList_remove ''hide'') s4 in
                     (case getElementById ''close-popup'' s of
                        None \<Rightarrow> (TypeError, s5)
                      | Some b \<Rightarrow> (Completed, modify b addEventListener_click s5))))))"
  by (simp add: load_handler_def Let_def getElementById_modify querySelector_class_modify
      getElementById_setTimeout querySelector_class_setTimeout ident_ops classList_ops
      split: option.splits)

lemma click_handler_lookups:
  "click_handler s =
     (case getElementById ''popup'' s of
        None \<Rightarrow> (TypeError, s)
      | Some p \<Rightarrow>
          let s1 = modify p (classList_remove ''show'') s in
          (case querySelector_class ''container'' s of
             None \<Rightarrow> (TypeError, s1)
           | Some c \<Rightarrow>
               let s2 = modify c (classList_remove ''blur'') s1 in
               (case getElementById ''overlay'' s of
                  None \<Rightarrow> (TypeError, s2)
                | Some v \<Rightarrow> (Completed, modify v (classList_add ''hide'') s2))))"
  by (simp add: click_handler_def Let_def getElementById_modify querySelector_class_modify
      ident_ops classList_ops split: option.splits)

lemmas lookup_simps = getElementById_modify querySelector_class_modify
  getElementById_setTimeout querySelector_class_setTimeout ident_ops classList_ops

lemma fire_Load: "fire Load s = snd (load_handler s)"
  by (simp add: fire_def)

lemma load_handler_present:
  assumes "getElementById ''popup'' s = Some p" "querySelector_class ''container'' s = Some c"
    "getElementById ''overlay'' s = Some v" "getElementById ''close-popup'' s = Some b"
  shows "load_handler s =
    (Completed,
     modify b addEventListener_click
      (modify v (classList_remove ''hide'')
        (modify c (classList_add ''blur'')
          (modify p (classList_add ''show'')
            (setTimeout RevealBody 50
              (modify (bodyRef s) (style_set ''display'' ''block'') s))))))"
  using assms by (simp add: load_handler_lookups)

lemma lookup_in_range:
  "getElementById i s = Some p \<Longrightarrow> p < length (tree s)"
  "querySelector_class c s = Some p \<Longrightarrow> p < length (tree s)"
  by (auto simp: getElementById_def querySelector_class_def dest: find_first_Some)



lemma body_modify: "body (modify i f s) = (if i = bodyRef s then f (body s) else body s)"
  by (simp add: modify_def bodyRef_def)

lemma body_setTimeout: "body (setTimeout f d s) = body s"
  by (simp add: setTimeout_def)

lemma style_ops:
  "style (classList_add t e) = style e"
  "style (classList_remove t e) = style e"
  "style (addEventListener_click e) = style e"
  "style (style_set p v e) = (style e)(p \<mapsto> v)"
  by (simp_all add: classList_add_def classList_remove_def style_set_def
      addEventListener_click_def)

lemmas frame_simps = nth_tree_modify length_tree_modify tree_setTimeout body_modify
  body_setTimeout bodyRef_modify bodyRef_setTimeout style_ops

subsection \<open>The sample pages, evaluated\<close>

lemmas demo_defs = demo_page_def demo_no_popup_def demo_no_container_def
  demo_no_overlay_def demo_no_close_def demo_body_container_def el_def

lemmas run_defs = getElementById_def querySelector_class_def tree_def bodyRef_def modify_def
  classList_add_def classList_remove_def style_set_def addEventListener_click_def
  setTimeout_def reveal_def click_handler_def load_handler_def fire_def
  popup_shown_def container_blurred_def overlay_visible_def in_sync_def
  targets_present_def all_present_def no_listeners_def body_untargeted_def

lemma demo_loaded:
  "fire Load demo_page =
     \<lparr>ahead = [el None [], el None []],
      body = (el None [])\<lparr>style := [''display'' \<mapsto> ''block'']\<rparr>,
      inside = [el None [''container'', ''blur''], el (Some ''overlay'') [],
                el (Some ''popup'') [''card'', ''show''],
                (el (Some ''close-popup'') [])\<lparr>closeListeners := 1\<rparr>],
      timers = [(RevealBody, 50)]\<rparr>"
  by (simp add: run_defs demo_defs)

section \<open>The load listener on a complete page\<close>

text \<open>
  C1. On every page that has the popup, a \<^verbatim>\<open>.container\<close> element, the overlay and the close
  control, the load listener runs to completion, and afterwards the popup has \<^verbatim>\<open>show\<close>, the
  container has \<^verbatim>\<open>blur\<close>, the overlay does not have \<^verbatim>\<open>hide\<close>, and the body's \<^verbatim>\<open>display\<close> is
  \<^verbatim>\<open>block\<close>.
\<close>

theorem load_handler_opens_popup:
  "all_present s \<Longrightarrow>
   fst (load_handler s) = Completed \<and>
   popup_shown (fire Load s) = Some True \<and>
   container_blurred (fire Load s) = Some True \<and>
   overlay_visible (fire Load s) = Some True \<and>
   style (body (fire Load s)) ''display'' = Some ''block''"
proof -
  assume "all_present s"
  then obtain p c v b where
    l: "getElementById ''popup'' s = Some p" "querySelector_class ''container'' s = Some c"
      "getElementById ''overlay'' s = Some v" "getElementById ''close-popup'' s = Some b"
    by (auto simp: all_present_def targets_present_def)
  note r = lookup_in_range(1) [OF l(1)] lookup_in_range(2) [OF l(2)] lookup_in_range(1) [OF l(3)]
  note h = load_handler_present [OF l]
  have 1: "fst (load_handler s) = Completed" by (simp add: h)
  have "getElementById ''popup'' (fire Load s) = Some p"
    by (simp add: fire_Load h lookup_simps l)
  moreover have "''show'' \<in> set (classList (tree (fire Load s) ! p))"
    using r by (simp add: fire_Load h frame_simps classList_ops)
  ultimately have 2: "popup_shown (fire Load s) = Some True"
    by (simp add: popup_shown_def)
  have "querySelector_class ''container'' (fire Load s) = Some c"
    by (simp add: fire_Load h lookup_simps l)
  moreover have "''blur'' \<in> set (classList (tree (fire Load s) ! c))"
    using r by (simp add: fire_Load h frame_simps classList_ops)
  ultimately have 3: "container_blurred (fire Load s) = Some True"
    by (simp add: container_blurred_def)
  have "getElementById ''overlay'' (fire Load s) = Some v"
    by (simp add: fire_Load h lookup_simps l)
  moreover have "''hide'' \<notin> set (classList (tree (fire Load s) ! v))"
    using r by (simp add: fire_Load h frame_simps classList_ops)
  ultimately have 4: "overlay_visible (fire Load s) = Some True"
    by (simp add: overlay_visible_def)
  have 5: "style (body (fire Load s)) ''display'' = Some ''block''"
    by (simp add: fire_Load h frame_simps)
  from 1 2 3 4 5 show ?thesis by simp
qed

theorem load_handler_opens_popup_witness:
  "all_present demo_page \<and>
   fst (load_handler demo_page) = Completed \<and>
   popup_shown (fire Load demo_page) = Some True \<and>
   container_blurred (fire Load demo_page) = Some True \<and>
   overlay_visible (fire Load demo_page) = Some True \<and>
   style (body (fire Load demo_page)) ''display'' = Some ''block''"
proof -
  have p: "all_present demo_page"
    by (simp add: all_present_def targets_present_def getElementById_def
        querySelector_class_def tree_def demo_page_def el_def)
  from p load_handler_opens_popup [OF p] show ?thesis by simp
qed

section \<open>The click listener\<close>

lemma click_handler_present:
  assumes "getElementById ''popup'' s = Some p" "querySelector_class ''container'' s = Some c"
    "getElementById ''overlay'' s = Some v"
  shows "click_handler s =
    (Completed,
     modify v (classList_add ''hide'')
       (modify c (classList_remove ''blur'')
         (modify p (classList_remove ''show'') s)))"
  using assms by (simp add: click_handler_lookups)

lemma close_at_idem: "close_at x y z (close_at x y z e) = close_at x y z e"
  by (cases x; cases y; cases z)
    (auto simp: close_at_def classList_add_def classList_remove_def)

lemma click_handler_nth:
  assumes "getElementById ''popup'' s = Some p" "querySelector_class ''container'' s = Some c"
    "getElementById ''overlay'' s = Some v"
  shows "tree (snd (click_handler s)) ! j = close_at (j = p) (j = c) (j = v) (tree s ! j)"
proof -
  note r = lookup_in_range(1) [OF assms(1)] lookup_in_range(2) [OF assms(2)]
    lookup_in_range(1) [OF assms(3)]
  show ?thesis
    using r by (simp add: click_handler_present [OF assms] frame_simps close_at_def)
qed

lemma click_handler_lookups_stable:
  "getElementById i (snd (click_handler s)) = getElementById i s"
  "querySelector_class ''container'' (snd (click_handler s)) = querySelector_class ''container'' s"
  by (simp_all add: click_handler_lookups Let_def lookup_simps split: option.splits)

lemma click_handler_frame:
  "length (tree (snd (click_handler s))) = length (tree s)"
  "bodyRef (snd (click_handler s)) = bodyRef s"
  "timers (snd (click_handler s)) = timers s"
  by (simp_all add: click_handler_lookups Let_def frame_simps timers_modify split: option.splits)

lemma click_handler_idem:
  assumes "targets_present s"
  shows "snd (click_handler (snd (click_handler s))) = snd (click_handler s)"
proof -
  from assms obtain p c v where
    l: "getElementById ''popup'' s = Some p" "querySelector_class ''container'' s = Some c"
      "getElementById ''overlay'' s = Some v"
    by (auto simp: targets_present_def)
  let ?t = "snd (click_handler s)"
  have l': "getElementById ''popup'' ?t = Some p" "querySelector_class ''container'' ?t = Some c"
      "getElementById ''overlay'' ?t = Some v"
    by (simp_all add: click_handler_lookups_stable l)
  have "tree (snd (click_handler ?t)) = tree ?t"
  proof (rule nth_equalityI)
    show "length (tree (snd (click_handler ?t))) = length (tree ?t)"
      by (simp add: click_handler_frame)
  next
    fix j
    show "tree (snd (click_handler ?t)) ! j = tree ?t ! j"
      by (simp add: click_handler_nth [OF l'] click_handler_nth [OF l] close_at_idem)
  qed
  then show ?thesis
    by (rule page_eqI) (simp_all add: click_handler_frame)
qed


lemma click_handler_closed:
  assumes "targets_present s"
  shows "fst (click_handler s) = Completed"
    and "popup_shown (snd (click_handler s)) = Some False"
    and "container_blurred (snd (click_handler s)) = Some False"
    and "overlay_visible (snd (click_handler s)) = Some False"
proof -
  from assms obtain p c v where
    l: "getElementById ''popup'' s = Some p" "querySelector_class ''container'' s = Some c"
      "getElementById ''overlay'' s = Some v"
    by (auto simp: targets_present_def)
  show "fst (click_handler s) = Completed"
    by (simp add: click_handler_present [OF l])
  show "popup_shown (snd (click_handler s)) = Some False"
    by (simp add: popup_shown_def click_handler_lookups_stable l click_handler_nth [OF l]
        close_at_def classList_ops)
  show "container_blurred (snd (click_handler s)) = Some False"
    by (simp add: container_blurred_def click_handler_lookups_stable l click_handler_nth [OF l]
        close_at_def classList_ops)
  show "overlay_visible (snd (click_handler s)) = Some False"
    by (simp add: overlay_visible_def click_handler_lookups_stable l click_handler_nth [OF l]
        close_at_def classList_ops)
qed

lemma targets_present_click_handler:
  "targets_present (snd (click_handler s)) = targets_present s"
  by (simp add: targets_present_def click_handler_lookups_stable)

lemma fold_click_handler:
  "targets_present s \<Longrightarrow>
   fold invoke (replicate (Suc n) OnClick) s = snd (click_handler s)"
proof (induction n arbitrary: s)
  case 0
  then show ?case by simp
next
  case (Suc n)
  have "fold invoke (replicate (Suc (Suc n)) OnClick) s =
        fold invoke (replicate (Suc n) OnClick) (snd (click_handler s))"
    by simp
  also have "\<dots> = snd (click_handler (snd (click_handler s)))"
    using Suc.prems by (intro Suc.IH) (simp add: targets_present_click_handler)
  also have "\<dots> = snd (click_handler s)"
    using Suc.prems by (rule click_handler_idem)
  finally show ?case .
qed

lemma fire_Click_present:
  assumes "targets_present s" and "dispatch (Click i) s \<noteq> []"
  shows "fire (Click i) s = snd (click_handler s)"
proof -
  from assms(2) obtain n where "i < length (tree s)" "closeListeners (tree s ! i) = Suc n"
    by (cases "closeListeners (tree s ! i)") (auto split: if_splits)
  then have "dispatch (Click i) s = replicate (Suc n) OnClick"
    by simp
  then have "fire (Click i) s = fold invoke (replicate (Suc n) OnClick) s"
    by (simp only: fire_def dequeue.simps)
  also have "\<dots> = snd (click_handler s)"
    using assms(1) by (rule fold_click_handler)
  finally show ?thesis .
qed

lemma fire_Click_silent: "dispatch (Click i) s = [] \<Longrightarrow> fire (Click i) s = s"
  by (simp only: fire_def dequeue.simps fold_simps id_apply)



text \<open>
  C5. The click listener is idempotent: on every page that has the popup, the container
  and the overlay, running it twice gives the same page as running it once, and from
  any such page (opened or not) it completes without a fault in the closed state.
\<close>

theorem click_handler_idempotent:
  "targets_present s \<Longrightarrow>
   fst (click_handler s) = Completed \<and>
   fst (click_handler (snd (click_handler s))) = Completed \<and>
   snd (click_handler (snd (click_handler s))) = snd (click_handler s) \<and>
   popup_shown (snd (click_handler s)) = Some False \<and>
   container_blurred (snd (click_handler s)) = Some False \<and>
   overlay_visible (snd (click_handler s)) = Some False"
proof -
  assume t: "targets_present s"
  then have t': "targets_present (snd (click_handler s))"
    by (simp add: targets_present_click_handler)
  from click_handler_closed [OF t] click_handler_closed(1) [OF t'] click_handler_idem [OF t]
  show ?thesis by simp
qed

theorem click_handler_idempotent_witness:
  "targets_present demo_page \<and>
   fst (click_handler demo_page) = Completed \<and>
   snd (click_handler (snd (click_handler demo_page))) = snd (click_handler demo_page) \<and>
   popup_shown (snd (click_handler demo_page)) = Some False"
proof -
  have p: "targets_present demo_page"
    by (simp add: run_defs demo_defs)
  from p click_handler_idempotent [OF p] show ?thesis by simp
qed

section \<open>Timers, faults and listeners\<close>

lemma map_tree_modify:
  assumes "\<And>e. g (f e) = g e"
  shows "map g (tree (modify i f s)) = map g (tree s)"
  by (rule nth_equalityI) (simp_all add: frame_simps assms)

lemma closeListeners_ops:
  "closeListeners (classList_add t e) = closeListeners e"
  "closeListeners (classList_remove t e) = closeListeners e"
  "closeListeners (style_set p v e) = closeListeners e"
  "closeListeners (addEventListener_click e) = Suc (closeListeners e)"
  by (simp_all add: classList_add_def classList_remove_def style_set_def
      addEventListener_click_def)

text \<open>A load that completes registers one more close listener on the close control.\<close>

lemma load_handler_registers:
  assumes "all_present s" and "getElementById ''close-popup'' s = Some b"
  shows "closeListeners (tree (fire Load s) ! b) = Suc (closeListeners (tree s ! b))"
proof -
  from assms obtain p c v where
    l: "getElementById ''popup'' s = Some p" "querySelector_class ''container'' s = Some c"
      "getElementById ''overlay'' s = Some v" "getElementById ''close-popup'' s = Some b"
    by (auto simp: all_present_def targets_present_def)
  from l(4) have "b < length (tree s)" by (rule lookup_in_range)
  then show ?thesis
    by (simp add: fire_Load load_handler_present [OF l] frame_simps closeListeners_ops)
qed

lemma classList_unchanged:
  "classList (style_set p v e) = classList e"
  "classList (addEventListener_click e) = classList e"
  by (simp_all add: style_set_def addEventListener_click_def)

lemma timers_setTimeout: "timers (setTimeout f d s) = timers s @ [(f, d)]"
  by (simp add: setTimeout_def)

lemma load_handler_timers: "timers (snd (load_handler s)) = timers s @ [(RevealBody, 50)]"
  by (simp add: load_handler_lookups Let_def timers_modify timers_setTimeout
      split: option.splits)

lemma load_handler_style:
  "style (body (snd (load_handler s))) = (style (body s))(''display'' \<mapsto> ''block'')"
  by (simp add: load_handler_lookups Let_def frame_simps split: option.splits)

lemma load_handler_fault: "\<not> all_present s \<Longrightarrow> fst (load_handler s) = TypeError"
  by (auto simp: load_handler_lookups Let_def all_present_def targets_present_def
      split: option.splits)

lemma click_handler_fault: "\<not> targets_present s \<Longrightarrow> fst (click_handler s) = TypeError"
  by (auto simp: click_handler_lookups Let_def targets_present_def split: option.splits)

lemma load_handler_fault_listeners:
  "\<not> all_present s \<Longrightarrow>
   map closeListeners (tree (snd (load_handler s))) = map closeListeners (tree s)"
  by (auto simp: load_handler_lookups Let_def all_present_def targets_present_def
      map_tree_modify closeListeners_ops tree_setTimeout split: option.splits)

lemma load_handler_no_popup:
  "getElementById ''popup'' s = None \<Longrightarrow>
   load_handler s =
     (TypeError,
      setTimeout RevealBody 50 (modify (bodyRef s) (style_set ''display'' ''block'') s))"
  by (simp add: load_handler_lookups)

lemma load_handler_no_container:
  "getElementById ''popup'' s = Some p \<Longrightarrow> querySelector_class ''container'' s = None \<Longrightarrow>
   load_handler s =
     (TypeError,
      modify p (classList_add ''show'')
        (setTimeout RevealBody 50 (modify (bodyRef s) (style_set ''display'' ''block'') s)))"
  by (simp add: load_handler_lookups)

lemma load_handler_no_overlay:
  "getElementById ''popup'' s = Some p \<Longrightarrow> querySelector_class ''container'' s = Some c \<Longrightarrow>
   getElementById ''overlay'' s = None \<Longrightarrow>
   load_handler s =
     (TypeError,
      modify c (classList_add ''blur'')
        (modify p (classList_add ''show'')
          (setTimeout RevealBody 50 (modify (bodyRef s) (style_set ''display'' ''block'') s))))"
  by (simp add: load_handler_lookups)

lemma load_handler_no_close:
  "getElementById ''popup'' s = Some p \<Longrightarrow> querySelector_class ''container'' s = Some c \<Longrightarrow>
   getElementById ''overlay'' s = Some v \<Longrightarrow> getElementById ''close-popup'' s = None \<Longrightarrow>
   load_handler s =
     (TypeError,
      modify v (classList_remove ''hide'')
        (modify c (classList_add ''blur'')
          (modify p (classList_add ''show'')
            (setTimeout RevealBody 50
              (modify (bodyRef s) (style_set ''display'' ''block'') s)))))"
  by (simp add: load_handler_lookups)

lemma click_handler_no_container:
  "getElementById ''popup'' s = Some p \<Longrightarrow> querySelector_class ''container'' s = None \<Longrightarrow>
   click_handler s = (TypeError, modify p (classList_remove ''show'') s)"
  by (simp add: click_handler_lookups)

lemma click_handler_no_overlay:
  "getElementById ''popup'' s = Some p \<Longrightarrow> querySelector_class ''container'' s = Some c \<Longrightarrow>
   getElementById ''overlay'' s = None \<Longrightarrow>
   click_handler s =
     (TypeError, modify c (classList_remove ''blur'') (modify p (classList_remove ''show'') s))"
  by (simp add: click_handler_lookups)

lemma click_handler_no_popup:
  "getElementById ''popup'' s = None \<Longrightarrow> click_handler s = (TypeError, s)"
  by (simp add: click_handler_lookups)

lemma dispatch_Click_cong:
  "map closeListeners (tree t) = map closeListeners (tree s) \<Longrightarrow>
   dispatch (Click i) t = dispatch (Click i) s"
proof -
  assume m: "map closeListeners (tree t) = map closeListeners (tree s)"
  then have l: "length (tree t) = length (tree s)"
    by (rule map_eq_imp_length_eq)
  have "closeListeners (tree t ! i) = closeListeners (tree s ! i)" if "i < length (tree s)"
    using that m l by (metis nth_map)
  with l show ?thesis by simp
qed

lemma fire_Timeout:
  "k < length (timers s) \<Longrightarrow>
   fire (Timeout k) s =
     modify (bodyRef s) (style_set ''opacity'' ''1'')
       (s\<lparr>timers := take k (timers s) @ drop (Suc k) (timers s)\<rparr>)"
  by (cases "fst (timers s ! k)") (simp add: fire_def reveal_def bodyRef_def)

lemma fire_Timeout_beyond: "\<not> k < length (timers s) \<Longrightarrow> fire (Timeout k) s = s"
  by (simp add: fire_def)

lemma fire_Timeout_opacity:
  "k < length (timers s) \<Longrightarrow> style (body (fire (Timeout k) s)) ''opacity'' = Some ''1''"
  by (simp add: fire_Timeout frame_simps bodyRef_def)



text \<open>
  C3. On every page that lacks one of the four elements the load listener ends in a
  TypeError (and the click listener does on a page that lacks one of its three). The fault
  ends that handler only: the timer scheduled before it is pending and sets the opacity
  when it runs, every listener registered before is still invoked by a click, and no
  listener is added. Whichever element is the first one missing, the handler has done
  exactly the statements before that lookup and none after it: the page it leaves is
  given for each case. When the popup is absent the load listener changes nothing but
  the body's display and the timer list, so no class list changes.
\<close>

theorem missing_element_fault:
  "\<not> all_present s \<Longrightarrow>
   fst (load_handler s) = TypeError \<and>
   (\<not> targets_present s \<longrightarrow> fst (click_handler s) = TypeError) \<and>
   timers (fire Load s) = timers s @ [(RevealBody, 50)] \<and>
   dispatch (Timeout (length (timers s))) (fire Load s) = [OnTimeout RevealBody] \<and>
   style (body (fire (Timeout (length (timers s))) (fire Load s))) ''opacity'' = Some ''1'' \<and>
   map closeListeners (tree (fire Load s)) = map closeListeners (tree s) \<and>
   (\<forall>i. dispatch (Click i) (fire Load s) = dispatch (Click i) s) \<and>
   (getElementById ''popup'' s = None \<longrightarrow>
      click_handler s = (TypeError, s) \<and>
      fire Load s =
        setTimeout RevealBody 50 (modify (bodyRef s) (style_set ''display'' ''block'') s) \<and>
      map classList (tree (fire Load s)) = map classList (tree s)) \<and>
   (getElementById ''popup'' s = Some p \<longrightarrow> querySelector_class ''container'' s = None \<longrightarrow>
      click_handler s = (TypeError, modify p (classList_remove ''show'') s) \<and>
      fire Load s =
        modify p (classList_add ''show'')
          (setTimeout RevealBody 50
            (modify (bodyRef s) (style_set ''display'' ''block'') s))) \<and>
   (getElementById ''popup'' s = Some p \<longrightarrow> querySelector_class ''container'' s = Some c \<longrightarrow>
    getElementById ''overlay'' s = None \<longrightarrow>
      click_handler s =
        (TypeError,
         modify c (classList_remove ''blur'') (modify p (classList_remove ''show'') s)) \<and>
      fire Load s =
        modify c (classList_add ''blur'')
          (modify p (classList_add ''show'')
            (setTimeout RevealBody 50
              (modify (bodyRef s) (style_set ''display'' ''block'') s)))) \<and>
   (getElementById ''popup'' s = Some p \<longrightarrow> querySelector_class ''container'' s = Some c \<longrightarrow>
    getElementById ''overlay'' s = Some v \<longrightarrow> getElementById ''close-popup'' s = None \<longrightarrow>
      fire Load s =
        modify v (classList_remove ''hide'')
          (modify c (classList_add ''blur'')
            (modify p (classList_add ''show'')
              (setTimeout RevealBody 50
                (modify (bodyRef s) (style_set ''display'' ''block'') s)))))"
proof -
  assume a: "\<not> all_present s"
  have t: "timers (fire Load s) = timers s @ [(RevealBody, 50)]"
    by (simp add: fire_Load load_handler_timers)
  then have k: "length (timers s) < length (timers (fire Load s))"
    by simp
  have d: "dispatch (Timeout (length (timers s))) (fire Load s) = [OnTimeout RevealBody]"
    by (simp add: t)
  have m: "map closeListeners (tree (fire Load s)) = map closeListeners (tree s)"
    using a by (simp add: fire_Load load_handler_fault_listeners)
  have c: "\<forall>i. dispatch (Click i) (fire Load s) = dispatch (Click i) s"
    using m by (blast intro: dispatch_Click_cong)
  have f: "\<not> targets_present s \<longrightarrow> fst (click_handler s) = TypeError"
    by (blast intro: click_handler_fault)
  have p: "getElementById ''popup'' s = None \<longrightarrow>
      click_handler s = (TypeError, s) \<and>
      fire Load s =
        setTimeout RevealBody 50 (modify (bodyRef s) (style_set ''display'' ''block'') s) \<and>
      map classList (tree (fire Load s)) = map classList (tree s)"
  proof
    assume n: "getElementById ''popup'' s = None"
    have "fire Load s =
        setTimeout RevealBody 50 (modify (bodyRef s) (style_set ''display'' ''block'') s)"
      by (simp add: fire_Load load_handler_no_popup [OF n])
    moreover from this have "map classList (tree (fire Load s)) = map classList (tree s)"
      by (simp add: tree_setTimeout map_tree_modify classList_unchanged)
    ultimately show "click_handler s = (TypeError, s) \<and>
      fire Load s =
        setTimeout RevealBody 50 (modify (bodyRef s) (style_set ''display'' ''block'') s) \<and>
      map classList (tree (fire Load s)) = map classList (tree s)"
      using click_handler_no_popup [OF n] by blast
  qed
  have q: "getElementById ''popup'' s = Some p \<longrightarrow> querySelector_class ''container'' s = None \<longrightarrow>
      click_handler s = (TypeError, modify p (classList_remove ''show'') s) \<and>
      fire Load s =
        modify p (classList_add ''show'')
          (setTimeout RevealBody 50
            (modify (bodyRef s) (style_set ''display'' ''block'') s))"
    by (simp add: fire_Load load_handler_no_container click_handler_no_container)
  have o: "getElementById ''popup'' s = Some p \<longrightarrow> querySelector_class ''container'' s = Some c \<longrightarrow>
    getElementById ''overlay'' s = None \<longrightarrow>
      click_handler s =
        (TypeError,
         modify c (classList_remove ''blur'') (modify p (classList_remove ''show'') s)) \<and>
      fire Load s =
        modify c (classList_add ''blur'')
          (modify p (classList_add ''show'')
            (setTimeout RevealBody 50
              (modify (bodyRef s) (style_set ''display'' ''block'') s)))"
    by (simp add: fire_Load load_handler_no_overlay click_handler_no_overlay)
  have b: "getElementById ''popup'' s = Some p \<longrightarrow> querySelector_class ''container'' s = Some c \<longrightarrow>
    getElementById ''overlay'' s = Some v \<longrightarrow> getElementById ''close-popup'' s = None \<longrightarrow>
      fire Load s =
        modify v (classList_remove ''hide'')
          (modify c (classList_add ''blur'')
            (modify p (classList_add ''show'')
              (setTimeout RevealBody 50
                (modify (bodyRef s) (style_set ''display'' ''block'') s))))"
    by (simp add: fire_Load load_handler_no_close)
  from load_handler_fault [OF a] f t d fire_Timeout_opacity [OF k] m c p
  have "fst (load_handler s) = TypeError \<and>
   (\<not> targets_present s \<longrightarrow> fst (click_handler s) = TypeError) \<and>
   timers (fire Load s) = timers s @ [(RevealBody, 50)] \<and>
   dispatch (Timeout (length (timers s))) (fire Load s) = [OnTimeout RevealBody] \<and>
   style (body (fire (Timeout (length (timers s))) (fire Load s))) ''opacity'' = Some ''1'' \<and>
   map closeListeners (tree (fire Load s)) = map closeListeners (tree s) \<and>
   (\<forall>i. dispatch (Click i) (fire Load s) = dispatch (Click i) s) \<and>
   (getElementById ''popup'' s = None \<longrightarrow>
      click_handler s = (TypeError, s) \<and>
      fire Load s =
        setTimeout RevealBody 50 (modify (bodyRef s) (style_set ''display'' ''block'') s) \<and>
      map classList (tree (fire Load s)) = map classList (tree s))"
    by blast
  with q o b show ?thesis
    by (intro conjI) (elim conjE, assumption)+
qed

theorem missing_element_fault_witness:
  "\<not> all_present demo_no_popup \<and> \<not> targets_present demo_no_popup \<and>
   getElementById ''popup'' demo_no_popup = None \<and>
   fst (load_handler demo_no_popup) = TypeError \<and>
   fst (click_handler demo_no_popup) = TypeError \<and>
   timers (fire Load demo_no_popup) = [(RevealBody, 50)] \<and>
   style (body (fire (Timeout 0) (fire Load demo_no_popup))) ''opacity'' = Some ''1'' \<and>
   map classList (tree (fire Load demo_no_popup)) = map classList (tree demo_no_popup) \<and>
   \<not> all_present demo_no_container \<and>
   getElementById ''popup'' demo_no_container = Some 5 \<and>
   querySelector_class ''container'' demo_no_container = None \<and>
   map classList (tree (fire Load demo_no_container))
     = [[], [], [], [''wrapper''], [''hide''], [''card'', ''show''], []] \<and>
   map closeListeners (tree (fire Load demo_no_container)) = [0, 0, 0, 0, 0, 0, 0] \<and>
   map classList (tree (snd (click_handler demo_no_container)))
     = [[], [], [], [''wrapper''], [''hide''], [''card''], []] \<and>
   \<not> all_present demo_no_overlay \<and>
   getElementById ''popup'' demo_no_overlay = Some 4 \<and>
   querySelector_class ''container'' demo_no_overlay = Some 3 \<and>
   getElementById ''overlay'' demo_no_overlay = None \<and>
   map classList (tree (fire Load demo_no_overlay))
     = [[], [], [], [''container'', ''blur''], [''card'', ''show''], []] \<and>
   map closeListeners (tree (fire Load demo_no_overlay)) = [0, 0, 0, 0, 0, 0] \<and>
   \<not> all_present demo_no_close \<and>
   getElementById ''popup'' demo_no_close = Some 5 \<and>
   querySelector_class ''container'' demo_no_close = Some 3 \<and>
   getElementById ''overlay'' demo_no_close = Some 4 \<and>
   getElementById ''close-popup'' demo_no_close = None \<and>
   map classList (tree (fire Load demo_no_close))
     = [[], [], [], [''container'', ''blur''], [], [''card'', ''show'']] \<and>
   map closeListeners (tree (fire Load demo_no_close)) = [0, 0, 0, 0, 0, 0]"
proof -
  have p: "getElementById ''popup'' demo_no_popup = None"
    by (simp add: getElementById_def tree_def demo_defs)
  then have a: "\<not> all_present demo_no_popup" and b: "\<not> targets_present demo_no_popup"
    by (simp_all add: all_present_def targets_present_def)
  have t: "timers demo_no_popup = []"
    by (simp add: demo_defs)
  note th = missing_element_fault [OF a]
  from th have "timers (fire Load demo_no_popup) = timers demo_no_popup @ [(RevealBody, 50)]"
    by blast
  with t have 1: "timers (fire Load demo_no_popup) = [(RevealBody, 50)]"
    by simp
  from th have "style (body (fire (Timeout (length (timers demo_no_popup)))
      (fire Load demo_no_popup))) ''opacity'' = Some ''1''"
    by blast
  with t have 2: "style (body (fire (Timeout 0) (fire Load demo_no_popup))) ''opacity''
      = Some ''1''"
    by simp
  from p th have 3: "fst (load_handler demo_no_popup) = TypeError"
    "map classList (tree (fire Load demo_no_popup)) = map classList (tree demo_no_popup)"
    by blast+
  from b th have 4: "fst (click_handler demo_no_popup) = TypeError"
    by blast

  have cp: "getElementById ''popup'' demo_no_container = Some 5"
    and cc: "querySelector_class ''container'' demo_no_container = None"
    by (simp_all add: getElementById_def querySelector_class_def tree_def demo_defs)
  from cc have ca: "\<not> all_present demo_no_container"
    by (simp add: all_present_def targets_present_def)
  note tc = missing_element_fault [OF ca, of 5]
  from tc cp cc have cl: "fire Load demo_no_container =
      modify 5 (classList_add ''show'')
        (setTimeout RevealBody 50
          (modify (bodyRef demo_no_container) (style_set ''display'' ''block'')
            demo_no_container))"
    and ck: "click_handler demo_no_container
      = (TypeError, modify 5 (classList_remove ''show'') demo_no_container)"
    by blast+
  have 5: "map classList (tree (fire Load demo_no_container))
     = [[], [], [], [''wrapper''], [''hide''], [''card'', ''show''], []]"
    "map closeListeners (tree (fire Load demo_no_container)) = [0, 0, 0, 0, 0, 0, 0]"
    unfolding cl
    by (simp_all add: tree_def modify_def bodyRef_def setTimeout_def classList_add_def
        style_set_def demo_defs)
  have 6: "map classList (tree (snd (click_handler demo_no_container)))
     = [[], [], [], [''wrapper''], [''hide''], [''card''], []]"
    unfolding ck
    by (simp add: tree_def modify_def classList_remove_def demo_defs)

  have op: "getElementById ''popup'' demo_no_overlay = Some 4"
    and oc: "querySelector_class ''container'' demo_no_overlay = Some 3"
    and oo: "getElementById ''overlay'' demo_no_overlay = None"
    by (simp_all add: getElementById_def querySelector_class_def tree_def demo_defs)
  from oo have oa: "\<not> all_present demo_no_overlay"
    by (simp add: all_present_def targets_present_def)
  note tov = missing_element_fault [OF oa, of 4 3]
  from tov op oc oo have ol: "fire Load demo_no_overlay =
      modify 3 (classList_add ''blur'')
        (modify 4 (classList_add ''show'')
          (setTimeout RevealBody 50
            (modify (bodyRef demo_no_overlay) (style_set ''display'' ''block'')
              demo_no_overlay)))"
    by blast
  have 7: "map classList (tree (fire Load demo_no_overlay))
     = [[], [], [], [''container'', ''blur''], [''card'', ''show''], []]"
    "map closeListeners (tree (fire Load demo_no_overlay)) = [0, 0, 0, 0, 0, 0]"
    unfolding ol
    by (simp_all add: tree_def modify_def bodyRef_def setTimeout_def classList_add_def
        style_set_def demo_defs)

  have bp: "getElementById ''popup'' demo_no_close = Some 5"
    and bc: "querySelector_class ''container'' demo_no_close = Some 3"
    and bo: "getElementById ''overlay'' demo_no_close = Some 4"
    and bb: "getElementById ''close-popup'' demo_no_close = None"
    by (simp_all add: getElementById_def querySelector_class_def tree_def demo_defs)
  from bb have ba: "\<not> all_present demo_no_close"
    by (simp add: all_present_def)
  note tb = missing_element_fault [OF ba, of 5 3 4]
  from tb bp bc bo bb have bl: "fire Load demo_no_close =
      modify 4 (classList_remove ''hide'')
        (modify 3 (classList_add ''blur'')
          (modify 5 (classList_add ''show'')
            (setTimeout RevealBody 50
              (modify (bodyRef demo_no_close) (style_set ''display'' ''block'')
                demo_no_close))))"
    by blast
  have 8: "map classList (tree (fire Load demo_no_close))
     = [[], [], [], [''container'', ''blur''], [], [''card'', ''show'']]"
    "map closeListeners (tree (fire Load demo_no_close)) = [0, 0, 0, 0, 0, 0]"
    unfolding bl
    by (simp_all add: tree_def modify_def bodyRef_def setTimeout_def classList_add_def
        classList_remove_def style_set_def demo_defs)

  from p a b 1 2 3 4 ca cp cc 5 6 oa op oc oo 7 ba bp bc bo bb 8 show ?thesis
    by (intro conjI) assumption+
qed

section \<open>Properties that every event keeps\<close>

lemma fold_click_invariant:
  assumes "\<And>t. P t \<Longrightarrow> P (snd (click_handler t))" and "P s"
  shows "P (fold invoke (replicate n OnClick) s)"
  using assms(2)
proof (induction n arbitrary: s)
  case 0
  then show ?case by simp
next
  case (Suc n)
  from Suc.prems have "P (snd (click_handler s))" by (rule assms(1))
  then have "P (fold invoke (replicate n OnClick) (snd (click_handler s)))" by (rule Suc.IH)
  then show ?case by simp
qed

lemma fire_Click_invariant:
  assumes "\<And>t. P t \<Longrightarrow> P (snd (click_handler t))" and "P s"
  shows "P (fire (Click i) s)"
proof (cases "i < length (tree s)")
  case True
  then have "fire (Click i) s = fold invoke (replicate (closeListeners (tree s ! i)) OnClick) s"
    by (simp only: fire_def dispatch.simps dequeue.simps if_True)
  with fold_click_invariant [of P s, OF assms] show ?thesis by simp
next
  case False
  then have "fire (Click i) s = s" by (simp add: fire_def)
  with assms(2) show ?thesis by simp
qed

lemma click_handler_style: "style (body (snd (click_handler s))) = style (body s)"
  by (simp add: click_handler_lookups Let_def frame_simps split: option.splits)

lemma fire_Click_timers: "timers (fire (Click i) s) = timers s"
  by (rule fire_Click_invariant [where P = "\<lambda>t. timers t = timers s"])
    (simp_all add: click_handler_frame)

lemma fire_Click_style: "style (body (fire (Click i) s)) = style (body s)"
  by (rule fire_Click_invariant [where P = "\<lambda>t. style (body t) = style (body s)"])
    (simp_all add: click_handler_style)

lemma fire_Timeout_timers:
  "k < length (timers s) \<Longrightarrow>
   timers (fire (Timeout k) s) = take k (timers s) @ drop (Suc k) (timers s)"
  by (simp add: fire_Timeout timers_modify)

lemma run_opacity:
  "\<forall>k. Timeout k \<notin> set es \<Longrightarrow>
   style (body (run es s)) ''opacity'' = style (body s) ''opacity''"
proof (induction es arbitrary: s)
  case Nil
  then show ?case by simp
next
  case (Cons e es)
  from Cons.prems have "\<And>k. e \<noteq> Timeout k"
    by auto
  then have "style (body (fire e s)) ''opacity'' = style (body s) ''opacity''"
    by (cases e) (auto simp: fire_Load load_handler_style fire_Click_style)
  moreover from Cons.prems have
    "style (body (run es (fire e s))) ''opacity'' = style (body (fire e s)) ''opacity''"
    by (intro Cons.IH) simp
  ultimately show ?case by simp
qed

text \<open>
  C4. The load listener adds exactly one entry to the pending timers, the reveal callback
  with a delay of 50, whether or not it faults later. No click changes the pending
  timers, and a timer that runs is taken off the list and not re-armed. When it runs the
  body's opacity is "1"; through any sequence of load and click events in which no timer
  runs, the opacity stays what it was.
\<close>

theorem reveal_timer:
  "timers (fire Load s) = timers s @ [(RevealBody, 50)] \<and>
   timers (fire (Click i) s) = timers s \<and>
   (k < length (timers s) \<longrightarrow>
      timers (fire (Timeout k) s) = take k (timers s) @ drop (Suc k) (timers s) \<and>
      style (body (fire (Timeout k) s)) ''opacity'' = Some ''1'') \<and>
   ((\<forall>k. Timeout k \<notin> set es) \<longrightarrow>
      style (body (run es s)) ''opacity'' = style (body s) ''opacity'')"
proof -
  have "timers (fire Load s) = timers s @ [(RevealBody, 50)]"
    by (simp add: fire_Load load_handler_timers)
  moreover note fire_Click_timers [of i s]
  moreover have "k < length (timers s) \<longrightarrow>
      timers (fire (Timeout k) s) = take k (timers s) @ drop (Suc k) (timers s) \<and>
      style (body (fire (Timeout k) s)) ''opacity'' = Some ''1''"
    by (blast intro: fire_Timeout_timers fire_Timeout_opacity)
  moreover have "(\<forall>k. Timeout k \<notin> set es) \<longrightarrow>
      style (body (run es s)) ''opacity'' = style (body s) ''opacity''"
    by (blast intro: run_opacity)
  ultimately show ?thesis by blast
qed

theorem reveal_timer_witness:
  "timers (fire Load demo_page) = [(RevealBody, 50)] \<and>
   style (body demo_page) ''opacity'' = None \<and>
   style (body (run [Load, Click 6, Click 6] demo_page)) ''opacity'' = None \<and>
   timers (fire (Timeout 0) (fire Load demo_page)) = [] \<and>
   style (body (fire (Timeout 0) (fire Load demo_page))) ''opacity'' = Some ''1''"
proof -
  have a: "style (body demo_page) ''opacity'' = None"
    by (simp add: demo_defs)
  have b: "\<forall>k. Timeout k \<notin> set [Load, Click 6, Click 6]"
    by simp
  have c: "timers (fire Load demo_page) = [(RevealBody, 50)]"
    by (simp add: demo_loaded)
  have d: "0 < length (timers (fire Load demo_page))"
    by (simp add: c)
  from a b reveal_timer [of demo_page 6 0 "[Load, Click 6, Click 6]"]
  have "style (body (run [Load, Click 6, Click 6] demo_page)) ''opacity'' = None"
    by simp
  moreover from c d reveal_timer [of "fire Load demo_page" 6 0 "[]"]
  have "timers (fire (Timeout 0) (fire Load demo_page)) = [] \<and>
    style (body (fire (Timeout 0) (fire Load demo_page))) ''opacity'' = Some ''1''"
    by simp
  ultimately show ?thesis using a c by blast
qed

section \<open>Lookups and listeners across events\<close>

lemma load_handler_lookups_stable:
  "getElementById i (snd (load_handler s)) = getElementById i s"
  "querySelector_class ''container'' (snd (load_handler s)) = querySelector_class ''container'' s"
  by (simp_all add: load_handler_lookups Let_def lookup_simps split: option.splits)

lemma tree_timers_update: "tree (s\<lparr>timers := ts\<rparr>) = tree s"
  by (simp add: tree_def)

lemma fire_Timeout_tree:
  assumes "\<And>e. g (style_set ''opacity'' ''1'' e) = g e"
  shows "map g (tree (fire (Timeout k) s)) = map g (tree s)"
proof (cases "k < length (timers s)")
  case True
  then show ?thesis
    by (simp add: fire_Timeout map_tree_modify assms tree_timers_update)
next
  case False
  then show ?thesis by (simp add: fire_Timeout_beyond)
qed

lemma lookups_timers_update:
  "getElementById i (s\<lparr>timers := ts\<rparr>) = getElementById i s"
  "querySelector_class c (s\<lparr>timers := ts\<rparr>) = querySelector_class c s"
  by (simp_all add: getElementById_def querySelector_class_def tree_timers_update)

lemma fire_Timeout_lookups:
  "getElementById i (fire (Timeout k) s) = getElementById i s"
  "querySelector_class c (fire (Timeout k) s) = querySelector_class c s"
  by (cases "k < length (timers s)";
      simp add: fire_Timeout fire_Timeout_beyond lookup_simps lookups_timers_update)+

lemma fire_lookups_stable:
  "getElementById i (fire e s) = getElementById i s"
  "querySelector_class ''container'' (fire e s) = querySelector_class ''container'' s"
proof -
  show "getElementById i (fire e s) = getElementById i s"
  proof (cases e)
    case Load
    then show ?thesis by (simp add: fire_Load load_handler_lookups_stable)
  next
    case (Click j)
    have "getElementById i (fire (Click j) s) = getElementById i s"
      by (rule fire_Click_invariant [where P = "\<lambda>t. getElementById i t = getElementById i s"])
        (simp_all add: click_handler_lookups_stable)
    with Click show ?thesis by simp
  next
    case (Timeout k)
    then show ?thesis by (simp add: fire_Timeout_lookups)
  qed
  show "querySelector_class ''container'' (fire e s) = querySelector_class ''container'' s"
  proof (cases e)
    case Load
    then show ?thesis by (simp add: fire_Load load_handler_lookups_stable)
  next
    case (Click j)
    have "querySelector_class ''container'' (fire (Click j) s)
        = querySelector_class ''container'' s"
      by (rule fire_Click_invariant
          [where P = "\<lambda>t. querySelector_class ''container'' t
                          = querySelector_class ''container'' s"])
        (simp_all add: click_handler_lookups_stable)
    with Click show ?thesis by simp
  next
    case (Timeout k)
    then show ?thesis by (simp add: fire_Timeout_lookups)
  qed
qed

lemma targets_present_fire: "targets_present (fire e s) = targets_present s"
  by (simp add: targets_present_def fire_lookups_stable)

lemma click_handler_listeners:
  "map closeListeners (tree (snd (click_handler s))) = map closeListeners (tree s)"
  by (simp add: click_handler_lookups Let_def map_tree_modify closeListeners_ops
      split: option.splits)

lemma fire_listeners:
  "e \<noteq> Load \<Longrightarrow> map closeListeners (tree (fire e s)) = map closeListeners (tree s)"
proof (cases e)
  case Load
  assume "e \<noteq> Load"
  with Load show ?thesis by simp
next
  case (Click j)
  have "map closeListeners (tree (fire (Click j) s)) = map closeListeners (tree s)"
    by (rule fire_Click_invariant
        [where P = "\<lambda>t. map closeListeners (tree t) = map closeListeners (tree s)"])
      (simp_all add: click_handler_listeners)
  with Click show ?thesis by simp
next
  case (Timeout k)
  have "map closeListeners (tree (fire (Timeout k) s)) = map closeListeners (tree s)"
    by (rule fire_Timeout_tree) (simp add: closeListeners_ops)
  with Timeout show ?thesis by simp
qed

lemma no_listeners_map:
  "no_listeners s = list_all (\<lambda>n. n = 0) (map closeListeners (tree s))"
  by (simp add: no_listeners_def list_all_iff)

lemma no_listeners_cong:
  "map closeListeners (tree t) = map closeListeners (tree s) \<Longrightarrow>
   no_listeners t = no_listeners s"
  by (simp only: no_listeners_map)

lemma no_listeners_dispatch:
  assumes "no_listeners s"
  shows "dispatch (Click i) s = []"
proof (cases "i < length (tree s)")
  case True
  then have "tree s ! i \<in> set (tree s)" by simp
  with assms have "closeListeners (tree s ! i) = 0"
    unfolding no_listeners_def list_all_iff by blast
  then show ?thesis by simp
next
  case False
  then show ?thesis by simp
qed

lemma no_listeners_fire_Click: "no_listeners s \<Longrightarrow> fire (Click i) s = s"
  by (simp only: fire_def no_listeners_dispatch dequeue.simps fold_simps id_apply)


lemma no_listeners_fire:
  "e \<noteq> Load \<Longrightarrow> no_listeners (fire e s) = no_listeners s"
  by (rule no_listeners_cong) (rule fire_listeners)

lemma click_preceded_by_load:
  "no_listeners s \<Longrightarrow> trace es s = xs @ OnClick # ys \<Longrightarrow> OnLoad \<in> set xs"
proof (induction es arbitrary: s xs)
  case Nil
  then show ?case by simp
next
  case (Cons e es)
  show ?case
  proof (cases e)
    case Load
    with Cons.prems(2) have "OnLoad # trace es (fire Load s) = xs @ OnClick # ys"
      by simp
    then show ?thesis by (cases xs) auto
  next
    case (Click i)
    with Cons.prems have "trace es s = xs @ OnClick # ys"
      by (simp add: no_listeners_dispatch no_listeners_fire_Click del: dispatch.simps)
    with Cons.prems(1) show ?thesis by (rule Cons.IH)
  next
    case (Timeout k)
    from Cons.prems(1) have n: "no_listeners (fire e s)"
      using Timeout by (simp add: no_listeners_fire)
    show ?thesis
    proof (cases "k < length (timers s)")
      case True
      with Timeout Cons.prems(2)
      have "OnTimeout (fst (timers s ! k)) # trace es (fire e s) = xs @ OnClick # ys"
        by simp
      then obtain xs' where "xs = OnTimeout (fst (timers s ! k)) # xs'"
        and "trace es (fire e s) = xs' @ OnClick # ys"
        by (cases xs) auto
      with Cons.IH [OF n] show ?thesis by auto
    next
      case False
      with Timeout Cons.prems(2) have "trace es (fire e s) = xs @ OnClick # ys"
        by simp
      with n show ?thesis by (rule Cons.IH)
    qed
  qed
qed

lemma no_load_classList:
  "no_listeners s \<Longrightarrow> Load \<notin> set es \<Longrightarrow>
   map classList (tree (run es s)) = map classList (tree s)"
proof (induction es arbitrary: s)
  case Nil
  then show ?case by simp
next
  case (Cons e es)
  from Cons.prems have e: "e \<noteq> Load" and es: "Load \<notin> set es"
    by auto
  from Cons.prems(1) e have n: "no_listeners (fire e s)"
    by (simp add: no_listeners_fire)
  have "map classList (tree (fire e s)) = map classList (tree s)"
  proof (cases e)
    case Load
    with e show ?thesis by simp
  next
    case (Click i)
    with Cons.prems(1) show ?thesis by (simp add: no_listeners_fire_Click)
  next
    case (Timeout k)
    have "map classList (tree (fire (Timeout k) s)) = map classList (tree s)"
      by (rule fire_Timeout_tree) (simp add: classList_unchanged)
    with Timeout show ?thesis by simp
  qed
  with Cons.IH [OF n es] show ?case by simp
qed

text \<open>
  C7. The close listener is registered by the load listener and nowhere else: no other
  event changes the number of close listeners on any element. So on a page where none
  is registered yet, every invocation of the click listener in the trace of any event
  sequence comes after an invocation of the load listener, and as long as no load event
  has fired no class list changes.
\<close>

theorem click_only_after_load:
  "(e \<noteq> Load \<longrightarrow> map closeListeners (tree (fire e s)) = map closeListeners (tree s)) \<and>
   (no_listeners s \<longrightarrow>
      (\<forall>xs ys. trace es s = xs @ OnClick # ys \<longrightarrow> OnLoad \<in> set xs) \<and>
      (Load \<notin> set es \<longrightarrow> map classList (tree (run es s)) = map classList (tree s)))"
  by (blast intro: fire_listeners click_preceded_by_load no_load_classList)

theorem click_only_after_load_witness:
  "no_listeners demo_page \<and>
   trace [Click 6, Load, Click 6] demo_page = [OnLoad] @ OnClick # [] \<and>
   OnLoad \<in> set [OnLoad] \<and>
   map closeListeners (tree (fire (Click 6) demo_page)) = map closeListeners (tree demo_page) \<and>
   map classList (tree (run [Click 6, Timeout 0] demo_page)) = map classList (tree demo_page)"
proof -
  have n: "no_listeners demo_page"
    by (simp add: no_listeners_def tree_def demo_defs)
  have c: "fire (Click 6) demo_page = demo_page"
    by (simp add: fire_def tree_def demo_defs)
  have d: "dispatch (Click 6) demo_page = []"
    by (simp add: tree_def demo_defs)
  have d': "dispatch (Click 6) (fire Load demo_page) = [OnClick]"
    unfolding demo_loaded by (simp add: tree_def el_def)
  have t: "trace [Click 6, Load, Click 6] demo_page = [OnLoad] @ OnClick # []"
    by (simp add: c d d' del: dispatch.simps) simp
  have l: "Load \<notin> set [Click 6, Timeout 0]" and e: "Click 6 \<noteq> Load"
    by simp_all
  from n t l e
    click_only_after_load [of "Click 6" demo_page "[Click 6, Load, Click 6]"]
    click_only_after_load [of "Click 6" demo_page "[Click 6, Timeout 0]"]
  show ?thesis by blast
qed

section \<open>A load that faults registers nothing\<close>

lemma faulty_load_keeps:
  assumes "\<not> targets_present s" and "no_listeners s"
  shows "\<not> targets_present (fire e s) \<and> no_listeners (fire e s)"
proof (cases "e = Load")
  case True
  from assms(1) have "\<not> all_present s"
    by (simp add: all_present_def)
  then have "map closeListeners (tree (fire Load s)) = map closeListeners (tree s)"
    by (simp add: fire_Load load_handler_fault_listeners)
  then have "no_listeners (fire Load s) = no_listeners s"
    by (rule no_listeners_cong)
  with True assms show ?thesis by (simp add: targets_present_fire)
next
  case False
  with assms show ?thesis by (simp add: targets_present_fire no_listeners_fire)
qed

lemma faulty_load_run:
  "\<not> targets_present s \<Longrightarrow> no_listeners s \<Longrightarrow>
   \<not> targets_present (run es s) \<and> no_listeners (run es s)"
proof (induction es arbitrary: s)
  case Nil
  then show ?case by simp
next
  case (Cons e es)
  from faulty_load_keeps [OF Cons.prems, of e] show ?case
    by (simp add: Cons.IH)
qed

text \<open>
  C9. When the popup, the container or the overlay is missing, the load listener faults
  before it reaches the registration on its last line: no element gains a close
  listener. On a page where none was registered before, no click after that load,
  whatever events come in between, invokes a handler or changes the page.
\<close>

theorem faulty_load_registers_nothing:
  "\<not> targets_present s \<Longrightarrow>
   fst (load_handler s) = TypeError \<and>
   map closeListeners (tree (fire Load s)) = map closeListeners (tree s) \<and>
   (no_listeners s \<longrightarrow>
      dispatch (Click i) (run es (fire Load s)) = [] \<and>
      fire (Click i) (run es (fire Load s)) = run es (fire Load s))"
proof -
  assume t: "\<not> targets_present s"
  then have a: "\<not> all_present s"
    by (simp add: all_present_def)
  have m: "map closeListeners (tree (fire Load s)) = map closeListeners (tree s)"
    using a by (simp add: fire_Load load_handler_fault_listeners)
  have "no_listeners (run es (fire Load s))" if n: "no_listeners s"
  proof -
    from faulty_load_keeps [OF t n, of Load]
    show ?thesis by (simp add: faulty_load_run)
  qed
  with load_handler_fault [OF a] m show ?thesis
    by (simp add: no_listeners_dispatch no_listeners_fire_Click del: dispatch.simps)
qed

theorem faulty_load_registers_nothing_witness:
  "\<not> targets_present demo_no_container \<and> no_listeners demo_no_container \<and>
   fst (load_handler demo_no_container) = TypeError \<and>
   dispatch (Click 6) (run [Timeout 0, Click 6, Load] (fire Load demo_no_container)) = [] \<and>
   fire (Click 6) (run [Timeout 0, Click 6, Load] (fire Load demo_no_container))
     = run [Timeout 0, Click 6, Load] (fire Load demo_no_container)"
proof -
  have t: "\<not> targets_present demo_no_container"
    by (simp add: targets_present_def querySelector_class_def tree_def demo_defs)
  have n: "no_listeners demo_no_container"
    by (simp add: no_listeners_def tree_def demo_defs)
  from t n faulty_load_registers_nothing [OF t, of 6 "[Timeout 0, Click 6, Load]"]
  show ?thesis by blast
qed

section \<open>A click on a page that has lost its container\<close>

lemma hide_modify_remove_show:
  "(''hide'' \<in> set (classList (tree (modify p (classList_remove ''show'') s) ! j)))
     = (''hide'' \<in> set (classList (tree s ! j)))"
  by (simp add: frame_simps classList_ops)

text \<open>
  C10. The click listener looks the elements up in the page as it is when the click
  arrives. On a page that has the popup but no \<^verbatim>\<open>.container\<close> element it removes \<^verbatim>\<open>show\<close> from
  the popup and then faults: nothing else changes, so \<^verbatim>\<open>hide\<close> is not added and the
  overlay is as visible as before, while the popup is no longer shown.
\<close>

theorem click_without_container:
  "getElementById ''popup'' s = Some p \<Longrightarrow> querySelector_class ''container'' s = None \<Longrightarrow>
   click_handler s = (TypeError, modify p (classList_remove ''show'') s) \<and>
   popup_shown (snd (click_handler s)) = Some False \<and>
   container_blurred (snd (click_handler s)) = None \<and>
   overlay_visible (snd (click_handler s)) = overlay_visible s"
proof -
  assume p: "getElementById ''popup'' s = Some p"
    and c: "querySelector_class ''container'' s = None"
  note h = click_handler_no_container [OF p c]
  from p have r: "p < length (tree s)" by (rule lookup_in_range)
  have "''show'' \<notin> set (classList (tree (snd (click_handler s)) ! p))"
    using r by (simp add: h frame_simps classList_ops)
  then have 1: "popup_shown (snd (click_handler s)) = Some False"
    by (simp add: popup_shown_def click_handler_lookups_stable p)
  have 2: "container_blurred (snd (click_handler s)) = None"
    by (simp add: container_blurred_def click_handler_lookups_stable c)
  have 3: "overlay_visible (snd (click_handler s)) = overlay_visible s"
    by (simp add: overlay_visible_def click_handler_lookups_stable)
      (simp add: h hide_modify_remove_show)
  from h 1 2 3 show ?thesis by simp
qed

theorem click_without_container_witness:
  "getElementById ''popup'' demo_open_no_container = Some 4 \<and>
   querySelector_class ''container'' demo_open_no_container = None \<and>
   popup_shown demo_open_no_container = Some True \<and>
   overlay_visible demo_open_no_container = Some True \<and>
   dispatch (Click 5) demo_open_no_container = [OnClick] \<and>
   fst (click_handler demo_open_no_container) = TypeError \<and>
   popup_shown (snd (click_handler demo_open_no_container)) = Some False \<and>
   overlay_visible (snd (click_handler demo_open_no_container)) = Some True"
proof -
  have p: "getElementById ''popup'' demo_open_no_container = Some 4"
    by (simp add: getElementById_def tree_def demo_open_no_container_def el_def)
  have c: "querySelector_class ''container'' demo_open_no_container = None"
    by (simp add: querySelector_class_def tree_def demo_open_no_container_def el_def)
  have o: "popup_shown demo_open_no_container = Some True"
    "overlay_visible demo_open_no_container = Some True"
    by (simp_all add: popup_shown_def overlay_visible_def getElementById_def tree_def
        demo_open_no_container_def el_def)
  have d: "dispatch (Click 5) demo_open_no_container = [OnClick]"
    by (simp add: tree_def demo_open_no_container_def el_def)
  note th = click_without_container [OF p c]
  from th have 1: "fst (click_handler demo_open_no_container) = TypeError"
    by simp
  from th have 2: "popup_shown (snd (click_handler demo_open_no_container)) = Some False"
    by blast
  from th have "overlay_visible (snd (click_handler demo_open_no_container))
      = overlay_visible demo_open_no_container"
    by blast
  with o have 3: "overlay_visible (snd (click_handler demo_open_no_container)) = Some True"
    by simp
  from p c o d 1 2 3 show ?thesis
    by blast
qed

section \<open>The three markers move together\<close>

lemma load_handler_open:
  assumes "targets_present s"
  shows "popup_shown (fire Load s) = Some True"
    and "container_blurred (fire Load s) = Some True"
    and "overlay_visible (fire Load s) = Some True"
proof -
  from assms obtain p c v where
    l: "getElementById ''popup'' s = Some p" "querySelector_class ''container'' s = Some c"
      "getElementById ''overlay'' s = Some v"
    by (auto simp: targets_present_def)
  note r = lookup_in_range(1) [OF l(1)] lookup_in_range(2) [OF l(2)] lookup_in_range(1) [OF l(3)]
  have "''show'' \<in> set (classList (tree (snd (load_handler s)) ! p))"
    using r by (simp add: load_handler_lookups l Let_def frame_simps classList_ops
        split: option.splits)
  then show "popup_shown (fire Load s) = Some True"
    by (simp add: popup_shown_def fire_lookups_stable l) (simp add: fire_Load)
  have "''blur'' \<in> set (classList (tree (snd (load_handler s)) ! c))"
    using r by (simp add: load_handler_lookups l Let_def frame_simps classList_ops
        split: option.splits)
  then show "container_blurred (fire Load s) = Some True"
    by (simp add: container_blurred_def fire_lookups_stable l) (simp add: fire_Load)
  have "''hide'' \<notin> set (classList (tree (snd (load_handler s)) ! v))"
    using r by (simp add: load_handler_lookups l Let_def frame_simps classList_ops
        split: option.splits)
  then show "overlay_visible (fire Load s) = Some True"
    by (simp add: overlay_visible_def fire_lookups_stable l) (simp add: fire_Load)
qed

lemma fire_Timeout_classList:
  "classList (tree (fire (Timeout k) s) ! j) = classList (tree s ! j)"
  by (cases "k < length (timers s)")
    (simp_all add: fire_Timeout fire_Timeout_beyond frame_simps tree_timers_update
      classList_unchanged)

lemma fire_Timeout_markers:
  "popup_shown (fire (Timeout k) s) = popup_shown s"
  "container_blurred (fire (Timeout k) s) = container_blurred s"
  "overlay_visible (fire (Timeout k) s) = overlay_visible s"
  by (simp_all add: popup_shown_def container_blurred_def overlay_visible_def
      fire_Timeout_lookups fire_Timeout_classList)

lemma in_sync_fire:
  assumes t: "targets_present s" and i: "in_sync s \<or> e = Load"
  shows "in_sync (fire e s)"
proof (cases e)
  case Load
  with load_handler_open [OF t] show ?thesis
    by (simp add: in_sync_def)
next
  case (Click j)
  with i have s: "in_sync s" by simp
  show ?thesis
  proof (cases "dispatch (Click j) s = []")
    case True
    with s Click show ?thesis by (simp only: fire_Click_silent)
  next
    case False
    with t have "fire (Click j) s = snd (click_handler s)"
      by (rule fire_Click_present)
    with click_handler_closed(2-4) [OF t] Click show ?thesis
      by (simp add: in_sync_def)
  qed
next
  case (Timeout k)
  have "in_sync (fire (Timeout k) s) = in_sync s"
    by (simp only: in_sync_def fire_Timeout_markers)
  with i Timeout show ?thesis by simp
qed

text \<open>
  C6, as the code has it. On a page that has the popup, the container and the overlay,
  every event keeps the three markers equal once they are equal, and a load event makes
  them equal: after any sequence of load, click and timer events that starts from a page
  in step or contains a load, popup-shown, container-blurred and overlay-visible have the
  same value.
\<close>

theorem markers_in_step:
  "targets_present s \<Longrightarrow> in_sync s \<or> Load \<in> set es \<Longrightarrow> in_sync (run es s)"
proof (induction es arbitrary: s)
  case Nil
  then show ?case by simp
next
  case (Cons e es)
  from Cons.prems(1) have t: "targets_present (fire e s)"
    by (simp add: targets_present_fire)
  show ?case
  proof (cases "in_sync s \<or> e = Load")
    case True
    with Cons.prems(1) have "in_sync (fire e s)" by (rule in_sync_fire)
    with t have "in_sync (run es (fire e s))" by (intro Cons.IH) simp_all
    then show ?thesis by simp
  next
    case False
    with Cons.prems(2) have "Load \<in> set es" by auto
    with t have "in_sync (run es (fire e s))" by (intro Cons.IH) simp_all
    then show ?thesis by simp
  qed
qed

text \<open>
  Without the condition on the page the markers do get out of step. On
  \<open>demo_no_container\<close> the load listener shows the popup and faults at the container
  lookup, with the overlay still hidden.
\<close>

theorem markers_out_of_step:
  "popup_shown (run [Load] demo_no_container) = Some True \<and>
   container_blurred (run [Load] demo_no_container) = None \<and>
   overlay_visible (run [Load] demo_no_container) = Some False \<and>
   \<not> in_sync (run [Load] demo_no_container)"
  by (simp add: run_defs demo_defs)

theorem markers_in_step_witness:
  "targets_present demo_page \<and> Load \<in> set [Click 6, Load, Timeout 0, Click 6, Click 6] \<and>
   in_sync (run [Click 6, Load, Timeout 0, Click 6, Click 6] demo_page)"
proof -
  have t: "targets_present demo_page"
    by (simp add: run_defs demo_defs)
  have l: "in_sync demo_page \<or> Load \<in> set [Click 6, Load, Timeout 0, Click 6, Click 6]"
    by simp
  from t l markers_in_step [OF t l] show ?thesis
    by simp
qed

section \<open>What the script does to the body\<close>

lemma body_timers_update:
  "body (s\<lparr>timers := ts\<rparr>) = body s"
  "bodyRef (s\<lparr>timers := ts\<rparr>) = bodyRef s"
  by (simp_all add: bodyRef_def)

lemma load_handler_body_ident: "ident (body (snd (load_handler s))) = ident (body s)"
  by (simp add: load_handler_lookups Let_def frame_simps ident_ops split: option.splits)

lemma click_handler_body_ident: "ident (body (snd (click_handler s))) = ident (body s)"
  by (simp add: click_handler_lookups Let_def frame_simps ident_ops split: option.splits)

lemma load_handler_frame:
  "length (tree (snd (load_handler s))) = length (tree s)"
  "bodyRef (snd (load_handler s)) = bodyRef s"
  by (simp_all add: load_handler_lookups Let_def frame_simps split: option.splits)

lemma fire_body_ident: "ident (body (fire e s)) = ident (body s)"
proof (cases e)
  case Load
  then show ?thesis by (simp add: fire_Load load_handler_body_ident)
next
  case (Click i)
  have "ident (body (fire (Click i) s)) = ident (body s)"
    by (rule fire_Click_invariant [where P = "\<lambda>t. ident (body t) = ident (body s)"])
      (simp_all add: click_handler_body_ident)
  with Click show ?thesis by simp
next
  case (Timeout k)
  then show ?thesis
    by (cases "k < length (timers s)")
      (simp_all add: fire_Timeout fire_Timeout_beyond frame_simps body_timers_update ident_ops)
qed

lemma fire_frame:
  "length (tree (fire e s)) = length (tree s) \<and> bodyRef (fire e s) = bodyRef s"
proof (cases e)
  case Load
  then show ?thesis by (simp add: fire_Load load_handler_frame)
next
  case (Click i)
  have "length (tree (fire (Click i) s)) = length (tree s) \<and> bodyRef (fire (Click i) s) = bodyRef s"
    by (rule fire_Click_invariant
        [where P = "\<lambda>t. length (tree t) = length (tree s) \<and> bodyRef t = bodyRef s"])
      (simp_all add: click_handler_frame)
  with Click show ?thesis by simp
next
  case (Timeout k)
  then show ?thesis
    by (cases "k < length (timers s)")
      (simp_all add: fire_Timeout fire_Timeout_beyond frame_simps body_timers_update
        tree_timers_update)
qed

lemma fire_body_style:
  "style (body (fire e s)) =
     (case e of
        Load \<Rightarrow> (style (body s))(''display'' \<mapsto> ''block'')
      | Click i \<Rightarrow> style (body s)
      | Timeout k \<Rightarrow>
          if k < length (timers s) then (style (body s))(''opacity'' \<mapsto> ''1'')
          else style (body s))"
proof (cases e)
  case Load
  then show ?thesis by (simp add: fire_Load load_handler_style)
next
  case (Click i)
  then show ?thesis by (simp add: fire_Click_style)
next
  case (Timeout k)
  then show ?thesis
    by (simp add: fire_Timeout fire_Timeout_beyond frame_simps body_timers_update)
qed

lemma load_handler_body_untargeted:
  "body_untargeted s \<Longrightarrow>
   body (snd (load_handler s)) = style_set ''display'' ''block'' (body s)"
  by (simp add: load_handler_lookups Let_def frame_simps body_untargeted_def
      split: option.splits)

lemma click_handler_body_untargeted:
  "body_untargeted s \<Longrightarrow> body (snd (click_handler s)) = body s"
  by (simp add: click_handler_lookups Let_def frame_simps body_untargeted_def
      split: option.splits)

lemma body_untargeted_click_handler:
  "body_untargeted (snd (click_handler s)) = body_untargeted s"
  by (simp add: body_untargeted_def click_handler_lookups_stable click_handler_frame)

lemma fire_body_untargeted:
  assumes "body_untargeted s"
  shows "classList (body (fire e s)) = classList (body s) \<and>
         closeListeners (body (fire e s)) = closeListeners (body s)"
proof (cases e)
  case Load
  with assms show ?thesis
    by (simp add: fire_Load load_handler_body_untargeted classList_unchanged closeListeners_ops)
next
  case (Click i)
  have "body_untargeted (fire (Click i) s) \<and> body (fire (Click i) s) = body s"
    by (rule fire_Click_invariant
        [where P = "\<lambda>t. body_untargeted t \<and> body t = body s"])
      (simp_all add: assms body_untargeted_click_handler click_handler_body_untargeted)
  with Click show ?thesis by simp
next
  case (Timeout k)
  then show ?thesis
    by (cases "k < length (timers s)")
      (simp_all add: fire_Timeout fire_Timeout_beyond frame_simps body_timers_update
        classList_unchanged closeListeners_ops)
qed

text \<open>
  C8, as the code has it. Whatever the event, the body stays in the document with its
  id, and its inline style changes in two places only: a load event sets \<^verbatim>\<open>display\<close> to
  \<^verbatim>\<open>block\<close>, a timer that runs sets \<^verbatim>\<open>opacity\<close> to "1", and a click writes no style at all.
  Its class list and its listeners are unchanged as well, provided the body is not
  itself the element that the popup, container, overlay or close-control lookup returns.
\<close>

theorem body_frame:
  "ident (body (fire e s)) = ident (body s) \<and>
   length (tree (fire e s)) = length (tree s) \<and>
   bodyRef (fire e s) = bodyRef s \<and>
   style (body (fire e s)) =
     (case e of
        Load \<Rightarrow> (style (body s))(''display'' \<mapsto> ''block'')
      | Click i \<Rightarrow> style (body s)
      | Timeout k \<Rightarrow>
          if k < length (timers s) then (style (body s))(''opacity'' \<mapsto> ''1'')
          else style (body s)) \<and>
   (body_untargeted s \<longrightarrow>
      classList (body (fire e s)) = classList (body s) \<and>
      closeListeners (body (fire e s)) = closeListeners (body s))"
  using fire_body_ident [of e s] fire_frame [of e s] fire_body_style [of e s]
    fire_body_untargeted [of s e]
  by blast

text \<open>
  Without that proviso the body does change elsewhere. On a page whose body carries the
  class \<^verbatim>\<open>container\<close> the container lookup returns the body, and the load listener adds
  \<^verbatim>\<open>blur\<close> to its class list.
\<close>

theorem body_class_changed:
  "querySelector_class ''container'' demo_body_container = Some (bodyRef demo_body_container) \<and>
   classList (body demo_body_container) = [''container''] \<and>
   classList (body (fire Load demo_body_container)) = [''container'', ''blur''] \<and>
   classList (body (fire Load demo_body_container)) \<noteq> classList (body demo_body_container)"
  by (simp add: run_defs demo_defs)

theorem body_frame_witness:
  "body_untargeted demo_page \<and>
   classList (body (fire Load demo_page)) = classList (body demo_page) \<and>
   closeListeners (body (fire Load demo_page)) = 0 \<and>
   style (body (fire Load demo_page)) = [''display'' \<mapsto> ''block''] \<and>
   style (body (fire (Timeout 0) (fire Load demo_page)))
     = [''display'' \<mapsto> ''block'', ''opacity'' \<mapsto> ''1'']"
proof -
  have u: "body_untargeted demo_page"
    by (simp add: body_untargeted_def getElementById_def querySelector_class_def tree_def
        bodyRef_def demo_defs)
  have b: "style (body demo_page) = Map.empty" "closeListeners (body demo_page) = 0"
    by (simp_all add: demo_defs)
  have t: "0 < length (timers (fire Load demo_page))"
    by (simp add: demo_loaded)
  from u b body_frame [of Load demo_page]
  have 1: "classList (body (fire Load demo_page)) = classList (body demo_page) \<and>
    closeListeners (body (fire Load demo_page)) = 0 \<and>
    style (body (fire Load demo_page)) = [''display'' \<mapsto> ''block'']"
    by simp
  with t body_frame [of "Timeout 0" "fire Load demo_page"]
  have "style (body (fire (Timeout 0) (fire Load demo_page)))
     = [''display'' \<mapsto> ''block'', ''opacity'' \<mapsto> ''1'']"
    by simp
  with u 1 show ?thesis by blast
qed

end
